theory Spec2Isabelle
  imports Main "HOL-Library.Multiset"
begin

section \<open>Hoot back end: the eight route handlers of controllers/hoots.js\<close>

text \<open>
  The repository is an Express router over one Mongoose model (models/hoot.js). Each
  handler is an \<open>async\<close> function wrapped in one \<open>try/catch\<close>; the model below turns

  \<^item> the collection of Hoot documents into an explicit state (\<open>db\<close>), passed in and returned;
  \<^item> every exception that reaches the \<open>catch\<close> into the response \<open>(500, JsonErr e)\<close>;
  \<^item> the clock and the driver's id generator into an input (\<open>env\<close>);
  \<^item> \<open>req.user\<close>, left on the request by the \<open>verifyToken\<close> middleware, into the
    argument \<open>user\<close>; the handlers run after that middleware.

  The Mongoose and BSON calls used by the handlers (\<open>findById\<close>, \<open>create\<close>,
  \<open>findByIdAndUpdate\<close>, \<open>findByIdAndDelete\<close>, \<open>save\<close>, \<open>comments.id\<close>,
  \<open>comments.remove\<close>, \<open>ObjectId.equals\<close>, \<open>populate\<close>, \<open>sort\<close>) are library code;
  they are written out here with the behaviour the handlers rely on. The unnamed source
  file is an earlier copy of the controller with the five post handlers only; they are the
  same there, but for \<open>GET /:hootId\<close> populating the post's author alone.
\<close>

subsection \<open>Identifiers\<close>

text \<open>
  An \<open>ObjectId\<close> is represented by its 24 character lower case hexadecimal form, the
  value of \<open>toString()\<close> and \<open>toHexString()\<close>.
\<close>

datatype objectid = ObjectId (toHexString: string)

text \<open>
  A JavaScript value found where an id is expected (\<open>req.user._id\<close>, or an
  \<open>author\<close> key of a request body): absent, a string, or a structured \<open>ObjectId\<close>.
\<close>

datatype jsid = Undefined | Str string | Oid objectid

definition isHexDigit :: "char \<Rightarrow> bool" where
  "isHexDigit c = (c \<in> set ''0123456789abcdefABCDEF'')"

definition toLowerCaseChar :: "char \<Rightarrow> char" where
  "toLowerCaseChar c =
     (case map_of (zip ''ABCDEFGHIJKLMNOPQRSTUVWXYZ'' ''abcdefghijklmnopqrstuvwxyz'') c of
        None \<Rightarrow> c
      | Some l \<Rightarrow> l)"

definition toLowerCase :: "string \<Rightarrow> string" where
  "toLowerCase s = map toLowerCaseChar s"

datatype error = ValidationError | CastError | TypeError | DuplicateKeyError

text \<open>
  \<open>new ObjectId(s)\<close> for a string: 24 hexadecimal digits, otherwise it throws; Mongoose
  reports the failure as a \<open>CastError\<close>.
\<close>

definition castObjectId :: "string \<Rightarrow> error + objectid" where
  "castObjectId s =
     (if length s = 24 \<and> list_all isHexDigit s then Inr (ObjectId (toLowerCase s))
      else Inl CastError)"

text \<open>Casting a value to a schema path of type \<open>ObjectId\<close>; \<open>undefined\<close> leaves the path unset.\<close>

fun castAuthor :: "jsid \<Rightarrow> error + objectid option" where
  "castAuthor Undefined = Inr None"
| "castAuthor (Oid a) = Inr (Some a)"
| "castAuthor (Str s) =
     (case castObjectId s of Inl e \<Rightarrow> Inl e | Inr a \<Rightarrow> Inr (Some a))"

text \<open>
  \<open>ObjectId.prototype.equals(otherId)\<close>: false for \<open>undefined\<close>, a comparison of the
  bytes for another \<open>ObjectId\<close>, and \<open>otherId.toLowerCase() === this.toHexString()\<close> for
  a string.
\<close>

fun equals :: "objectid \<Rightarrow> jsid \<Rightarrow> bool" where
  "equals a Undefined = False"
| "equals a (Oid b) = (toHexString a = toHexString b)"
| "equals a (Str s) = (toLowerCase s = toHexString a)"

text \<open>
  The strict inequality \<open>x !== y\<close> with a string on the left: a string on the right is
  compared character by character, any other value is of another type and so unequal.
\<close>

fun strictNotEqual :: "string \<Rightarrow> jsid \<Rightarrow> bool" where
  "strictNotEqual x (Str y) = (x \<noteq> y)"
| "strictNotEqual x Undefined = True"
| "strictNotEqual x (Oid b) = True"

subsection \<open>Documents\<close>

text \<open>
  \<open>req.user\<close>, and the documents of the \<open>User\<close> collection that \<open>populate\<close> reads.
  Modelled from the spec: the user model and the token middleware are not among the
  sources; a user is an id and the fields shown to clients.
\<close>

record user =
  u_id :: jsid
  u_username :: string

text \<open>What the \<open>author\<close> key of a document holds when it is serialised.\<close>

datatype author_json = AuthorUndefined | AuthorId objectid | AuthorNull | AuthorUser user

text \<open>
  \<open>commentSchema\<close> and \<open>hootSchema\<close> with \<open>timestamps: true\<close>. The type parameters are
  the contents of the \<open>author\<close> paths: \<open>objectid option\<close> in a stored document
  (neither path is required), \<open>author_json\<close> in a response.
\<close>

record 'a comment =
  c_id :: objectid
  c_text :: string
  c_author :: 'a
  c_createdAt :: int
  c_updatedAt :: int

record ('a, 'b) hoot =
  h_id :: objectid
  h_title :: string
  h_text :: string
  h_category :: string
  h_author :: 'a
  h_comments :: "'b comment list"
  h_createdAt :: int
  h_updatedAt :: int

type_synonym stored_comment = "objectid option comment"
type_synonym stored_hoot = "(objectid option, objectid option) hoot"
type_synonym json_comment = "author_json comment"
type_synonym json_hoot = "(author_json, author_json) hoot"

record db =
  hoots :: "stored_hoot list"
  users :: "user list"

text \<open>The time of the request in milliseconds and the id the driver generates for a new document.\<close>

record env =
  now :: int
  newId :: objectid

text \<open>
  Request bodies, restricted to the keys the schemas declare; \<open>None\<close> and
  \<open>Undefined\<close> are an absent key. The comment handler pushes the whole body into the
  array of subdocuments, so a comment body may bring its own \<open>_id\<close>.
\<close>

record hoot_body =
  b_title :: "string option"
  b_text :: "string option"
  b_category :: "string option"
  b_author :: jsid

record comment_body =
  cb_id :: jsid
  cb_text :: "string option"
  cb_author :: jsid

datatype body =
    JsonHoot json_hoot
  | JsonHoots "json_hoot list"
  | JsonComment json_comment
  | JsonNull
  | JsonMessage string
  | JsonErr error
  | SendText string

type_synonym response = "nat \<times> body"

subsection \<open>Serialisation and populate\<close>

definition idJSON :: "objectid option \<Rightarrow> author_json" where
  "idJSON a = (case a of None \<Rightarrow> AuthorUndefined | Some i \<Rightarrow> AuthorId i)"

definition commentJSON :: "stored_comment \<Rightarrow> json_comment" where
  "commentJSON c =
     \<lparr>c_id = c_id c, c_text = c_text c, c_author = idJSON (c_author c),
      c_createdAt = c_createdAt c, c_updatedAt = c_updatedAt c\<rparr>"

definition hootJSON :: "stored_hoot \<Rightarrow> json_hoot" where
  "hootJSON h =
     \<lparr>h_id = h_id h, h_title = h_title h, h_text = h_text h, h_category = h_category h,
      h_author = idJSON (h_author h), h_comments = map commentJSON (h_comments h),
      h_createdAt = h_createdAt h, h_updatedAt = h_updatedAt h\<rparr>"

text \<open>
  \<open>populate\<close> replaces a reference by the user document with that id, by \<open>null\<close> when
  there is none; an unset path stays unset.
\<close>

definition populateRef :: "user list \<Rightarrow> objectid option \<Rightarrow> author_json" where
  "populateRef us a =
     (case a of
        None \<Rightarrow> AuthorUndefined
      | Some i \<Rightarrow> (case find (\<lambda>u. u_id u = Oid i) us of
                    None \<Rightarrow> AuthorNull
                  | Some u \<Rightarrow> AuthorUser u))"


text \<open>\<open>.populate(['author', 'comments.author'])\<close>\<close>

definition populateAll :: "user list \<Rightarrow> stored_hoot \<Rightarrow> json_hoot" where
  "populateAll us h =
     (hootJSON h)\<lparr>h_author := populateRef us (h_author h),
                  h_comments := map (\<lambda>c. (commentJSON c)\<lparr>c_author := populateRef us (c_author c)\<rparr>)
                                    (h_comments h)\<rparr>"

subsection \<open>Model operations\<close>

text \<open>\<open>Hoot.findById(id)\<close>: the id is cast first; no document gives \<open>null\<close>.\<close>

definition findById :: "db \<Rightarrow> string \<Rightarrow> error + stored_hoot option" where
  "findById d hootId =
     (case castObjectId hootId of
        Inl e \<Rightarrow> Inl e
      | Inr i \<Rightarrow> Inr (find (\<lambda>h. h_id h = i) (hoots d)))"

text \<open>
  The validators of \<open>hootSchema\<close>: \<open>required\<close> on a string rejects an absent and an
  empty value, \<open>enum\<close> a value outside the list.
\<close>

definition categories :: "string list" where
  "categories = [''News'', ''Sports'', ''Games'', ''Movies'', ''Music'', ''Television'']"

text \<open>
  \<open>Hoot.create(body)\<close>: a document that fails validation (a cast failure of a path counts
  as one) is rejected with a \<open>ValidationError\<close>; the server rejects a second document
  with the same \<open>_id\<close>; otherwise the document is inserted with both timestamps set.
\<close>

definition create :: "env \<Rightarrow> db \<Rightarrow> hoot_body \<Rightarrow> error + (db \<times> stored_hoot)" where
  "create e d b =
     (case (b_title b, b_text b, b_category b, castAuthor (b_author b)) of
        (Some title, Some text, Some category, Inr a) \<Rightarrow>
          if title = [] \<or> text = [] \<or> category = [] \<or> category \<notin> set categories
          then Inl ValidationError
          else if newId e \<in> set (map h_id (hoots d)) then Inl DuplicateKeyError
          else
            (let doc = \<lparr>h_id = newId e, h_title = title, h_text = text, h_category = category,
                        h_author = a, h_comments = [], h_createdAt = now e, h_updatedAt = now e\<rparr>
             in Inr (d\<lparr>hoots := hoots d @ [doc]\<rparr>, doc))
      | _ \<Rightarrow> Inl ValidationError)"

text \<open>Replacing the one document with a given \<open>_id\<close>, as \<open>updateOne\<close> does.\<close>

fun updateOne :: "objectid \<Rightarrow> stored_hoot \<Rightarrow> stored_hoot list \<Rightarrow> stored_hoot list" where
  "updateOne i h' [] = []"
| "updateOne i h' (h # hs) = (if h_id h = i then h' # hs else h # updateOne i h' hs)"

fun deleteOne :: "objectid \<Rightarrow> stored_hoot list \<Rightarrow> stored_hoot list" where
  "deleteOne i [] = []"
| "deleteOne i (h # hs) = (if h_id h = i then hs else h # deleteOne i hs)"

text \<open>
  \<open>Hoot.findByIdAndUpdate(id, body, {new: true})\<close>: the body becomes a \<open>$set\<close> of the
  keys it has, cast but not validated (update validators are off by default), and
  \<open>updatedAt\<close> is refreshed. The result is the document after the update.
\<close>

definition applySet :: "int \<Rightarrow> hoot_body \<Rightarrow> objectid option \<Rightarrow> stored_hoot \<Rightarrow> stored_hoot" where
  "applySet t b a h =
     h\<lparr>h_title := (case b_title b of None \<Rightarrow> h_title h | Some s \<Rightarrow> s),
       h_text := (case b_text b of None \<Rightarrow> h_text h | Some s \<Rightarrow> s),
       h_category := (case b_category b of None \<Rightarrow> h_category h | Some s \<Rightarrow> s),
       h_author := (case a of None \<Rightarrow> h_author h | Some i \<Rightarrow> Some i),
       h_updatedAt := t\<rparr>"

definition findByIdAndUpdate ::
  "env \<Rightarrow> db \<Rightarrow> string \<Rightarrow> hoot_body \<Rightarrow> error + (db \<times> stored_hoot option)" where
  "findByIdAndUpdate e d hootId b =
     (case castObjectId hootId of
        Inl x \<Rightarrow> Inl x
      | Inr i \<Rightarrow>
          (case castAuthor (b_author b) of
             Inl x \<Rightarrow> Inl x
           | Inr a \<Rightarrow>
               (case find (\<lambda>h. h_id h = i) (hoots d) of
                  None \<Rightarrow> Inr (d, None)
                | Some h \<Rightarrow>
                    (let h' = applySet (now e) b a h
                     in Inr (d\<lparr>hoots := updateOne i h' (hoots d)\<rparr>, Some h')))))"

text \<open>\<open>Hoot.findByIdAndDelete(id)\<close>: removes the document and returns it.\<close>

definition findByIdAndDelete :: "db \<Rightarrow> string \<Rightarrow> error + (db \<times> stored_hoot option)" where
  "findByIdAndDelete d hootId =
     (case castObjectId hootId of
        Inl x \<Rightarrow> Inl x
      | Inr i \<Rightarrow>
          (case find (\<lambda>h. h_id h = i) (hoots d) of
             None \<Rightarrow> Inr (d, None)
           | Some h \<Rightarrow> Inr (d\<lparr>hoots := deleteOne i (hoots d)\<rparr>, Some h)))"

text \<open>
  The validators of the two schemas on a document in memory: title, text and category are
  required, the category is one of the six values, and every comment has a text.
\<close>

definition validComment :: "stored_comment \<Rightarrow> bool" where
  "validComment c = (c_text c \<noteq> [])"

definition validHoot :: "stored_hoot \<Rightarrow> bool" where
  "validHoot h =
     (h_title h \<noteq> [] \<and> h_text h \<noteq> [] \<and> h_category h \<noteq> []
      \<and> h_category h \<in> set categories \<and> list_all validComment (h_comments h))"

text \<open>
  \<open>hoot.save()\<close> of a document loaded by \<open>findById\<close> and changed by the handler. The
  whole document is validated first, the paths the handler left alone included: a
  document that fails is rejected with a \<open>ValidationError\<close> and nothing is written.
  Otherwise the stored document with that \<open>_id\<close> is brought to the in-memory state,
  with \<open>updatedAt\<close> refreshed.
\<close>

definition save :: "env \<Rightarrow> db \<Rightarrow> stored_hoot \<Rightarrow> error + db" where
  "save e d h =
     (if \<not> validHoot h then Inl ValidationError
      else Inr (d\<lparr>hoots := updateOne (h_id h) (h\<lparr>h_updatedAt := now e\<rparr>) (hoots d)\<rparr>))"

text \<open>
  \<open>hoot.comments.id(commentId)\<close>: the first subdocument whose \<open>_id\<close> is the cast of the
  argument, \<open>null\<close> when the argument cannot be cast or nothing matches.
\<close>

definition comments_id :: "stored_comment list \<Rightarrow> string \<Rightarrow> stored_comment option" where
  "comments_id cs commentId =
     (case castObjectId commentId of
        Inl e \<Rightarrow> None
      | Inr i \<Rightarrow> find (\<lambda>c. c_id c = i) cs)"

text \<open>\<open>hoot.comments.remove({_id: commentId})\<close>: pulls every subdocument with that \<open>_id\<close>.\<close>

definition comments_remove :: "stored_comment list \<Rightarrow> string \<Rightarrow> stored_comment list" where
  "comments_remove cs commentId =
     (case castObjectId commentId of
        Inl e \<Rightarrow> cs
      | Inr i \<Rightarrow> filter (\<lambda>c. c_id c \<noteq> i) cs)"


subsection \<open>The handlers\<close>

definition fail :: "db \<Rightarrow> error \<Rightarrow> db \<times> response" where
  "fail d e = (d, (500, JsonErr e))"

text \<open>\<open>router.post("/")\<close>\<close>

definition post_hoots :: "env \<Rightarrow> user \<Rightarrow> hoot_body \<Rightarrow> db \<Rightarrow> db \<times> response" where
  "post_hoots e u b d =
     (case create e d (b\<lparr>b_author := u_id u\<rparr>) of
        Inl x \<Rightarrow> fail d x
      | Inr (d', hoot) \<Rightarrow> (d', (201, JsonHoot ((hootJSON hoot)\<lparr>h_author := AuthorUser u\<rparr>))))"


text \<open>\<open>router.get("/:hootId")\<close>\<close>

definition get_hoot :: "string \<Rightarrow> user \<Rightarrow> db \<Rightarrow> db \<times> response" where
  "get_hoot hootId u d =
     (case findById d hootId of
        Inl x \<Rightarrow> fail d x
      | Inr None \<Rightarrow> (d, (200, JsonNull))
      | Inr (Some hoot) \<Rightarrow> (d, (200, JsonHoot (populateAll (users d) hoot))))"

text \<open>
  \<open>router.put("/:hootId")\<close>. Reading \<open>hoot.author\<close> of \<open>null\<close>, and calling \<open>equals\<close> on an
  unset author, throw a \<open>TypeError\<close>.
\<close>

definition put_hoot :: "env \<Rightarrow> string \<Rightarrow> user \<Rightarrow> hoot_body \<Rightarrow> db \<Rightarrow> db \<times> response" where
  "put_hoot e hootId u b d =
     (case findById d hootId of
        Inl x \<Rightarrow> fail d x
      | Inr None \<Rightarrow> fail d TypeError
      | Inr (Some hoot) \<Rightarrow>
          (case h_author hoot of
             None \<Rightarrow> fail d TypeError
           | Some a \<Rightarrow>
               if \<not> equals a (u_id u) then (d, (403, SendText ''You're not allowed to do that!''))
               else
                 (case findByIdAndUpdate e d hootId b of
                    Inl x \<Rightarrow> fail d x
                  | Inr (d', None) \<Rightarrow> fail d' TypeError
                  | Inr (d', Some updatedHoot) \<Rightarrow>
                      (d', (200, JsonHoot ((hootJSON updatedHoot)\<lparr>h_author := AuthorUser u\<rparr>))))))"

text \<open>\<open>router.delete("/:hootId")\<close>\<close>

definition delete_hoot :: "string \<Rightarrow> user \<Rightarrow> db \<Rightarrow> db \<times> response" where
  "delete_hoot hootId u d =
     (case findById d hootId of
        Inl x \<Rightarrow> fail d x
      | Inr None \<Rightarrow> fail d TypeError
      | Inr (Some hoot) \<Rightarrow>
          (case h_author hoot of
             None \<Rightarrow> fail d TypeError
           | Some a \<Rightarrow>
               if \<not> equals a (u_id u) then (d, (403, SendText ''You're not allowed to do that!''))
               else
                 (case findByIdAndDelete d hootId of
                    Inl x \<Rightarrow> fail d x
                  | Inr (d', None) \<Rightarrow> (d', (200, JsonNull))
                  | Inr (d', Some deletedHoot) \<Rightarrow> (d', (200, JsonHoot (hootJSON deletedHoot))))))"

text \<open>
  \<open>router.post("/:hootId/comments")\<close>. The pushed body is cast to a subdocument: its
  \<open>_id\<close> is the one of the body when it has one and a generated one otherwise; a
  missing text and a value that cannot be cast fail the validation of \<open>save\<close>, which
  also stamps the new comment.
\<close>

definition post_comment :: "env \<Rightarrow> string \<Rightarrow> user \<Rightarrow> comment_body \<Rightarrow> db \<Rightarrow> db \<times> response" where
  "post_comment e hootId u b d =
     (let b' = b\<lparr>cb_author := u_id u\<rparr> in
      case findById d hootId of
        Inl x \<Rightarrow> fail d x
      | Inr None \<Rightarrow> fail d TypeError
      | Inr (Some hoot) \<Rightarrow>
          (case (cb_text b', castAuthor (cb_author b'), castAuthor (cb_id b')) of
             (Some text, Inr a, Inr i) \<Rightarrow>
               (let newComment = \<lparr>c_id = (case i of None \<Rightarrow> newId e | Some j \<Rightarrow> j),
                                  c_text = text, c_author = a,
                                  c_createdAt = now e, c_updatedAt = now e\<rparr>;
                    hoot' = hoot\<lparr>h_comments := h_comments hoot @ [newComment]\<rparr>
                in case save e d hoot' of
                     Inl x \<Rightarrow> fail d x
                   | Inr d' \<Rightarrow>
                       (d', (201, JsonComment ((commentJSON newComment)\<lparr>c_author := AuthorUser u\<rparr>))))
           | _ \<Rightarrow> fail d ValidationError))"

text \<open>
  The assignment \<open>comment.text = req.body.text\<close> acts on the element of the array that
  \<open>comments.id\<close> returned, the first one with that \<open>_id\<close>.
\<close>

fun setFirst :: "objectid \<Rightarrow> stored_comment \<Rightarrow> stored_comment list \<Rightarrow> stored_comment list" where
  "setFirst i c' [] = []"
| "setFirst i c' (c # cs) = (if c_id c = i then c' # cs else c # setFirst i c' cs)"

text \<open>
  \<open>router.put("/:hootId/comments/:commentId")\<close>. Reading \<open>author\<close> of \<open>null\<close> and
  calling \<open>toString\<close> on an unset author throw a \<open>TypeError\<close>. Assigning the text
  the comment already has modifies nothing, and \<open>save\<close> then validates and writes
  nothing.
\<close>

definition put_comment ::
  "env \<Rightarrow> string \<Rightarrow> string \<Rightarrow> user \<Rightarrow> comment_body \<Rightarrow> db \<Rightarrow> db \<times> response" where
  "put_comment e hootId commentId u b d =
     (case findById d hootId of
        Inl x \<Rightarrow> fail d x
      | Inr None \<Rightarrow> fail d TypeError
      | Inr (Some hoot) \<Rightarrow>
          (case comments_id (h_comments hoot) commentId of
             None \<Rightarrow> fail d TypeError
           | Some comment \<Rightarrow>
               (case c_author comment of
                  None \<Rightarrow> fail d TypeError
                | Some a \<Rightarrow>
                    if strictNotEqual (toHexString a) (u_id u)
                    then (d, (403, JsonMessage ''You are not authorized to edit this comment''))
                    else
                      (case cb_text b of
                         None \<Rightarrow> fail d ValidationError
                       | Some text \<Rightarrow>
                           if text = c_text comment
                           then (if validHoot hoot
                                 then (d, (200, JsonMessage ''Comment updated successfully''))
                                 else fail d ValidationError)
                           else
                             (let comment' = comment\<lparr>c_text := text, c_updatedAt := now e\<rparr>;
                                  hoot' = hoot\<lparr>h_comments :=
                                            setFirst (c_id comment) comment' (h_comments hoot)\<rparr>
                              in case save e d hoot' of
                                   Inl x \<Rightarrow> fail d x
                                 | Inr d' \<Rightarrow>
                                     (d', (200, JsonMessage ''Comment updated successfully'')))))))"

text \<open>
  \<open>router.delete("/:hootId/comments/:commentId")\<close>. The removal acts on the document in
  memory; \<open>save\<close> validates what is left of the document before it writes.
\<close>

definition delete_comment :: "env \<Rightarrow> string \<Rightarrow> string \<Rightarrow> user \<Rightarrow> db \<Rightarrow> db \<times> response" where
  "delete_comment e hootId commentId u d =
     (case findById d hootId of
        Inl x \<Rightarrow> fail d x
      | Inr None \<Rightarrow> fail d TypeError
      | Inr (Some hoot) \<Rightarrow>
          (case comments_id (h_comments hoot) commentId of
             None \<Rightarrow> fail d TypeError
           | Some comment \<Rightarrow>
               (case c_author comment of
                  None \<Rightarrow> fail d TypeError
                | Some a \<Rightarrow>
                    if strictNotEqual (toHexString a) (u_id u)
                    then (d, (403, JsonMessage ''You are not authorized to delete this comment''))
                    else
                      (let hoot' = hoot\<lparr>h_comments := comments_remove (h_comments hoot) commentId\<rparr>
                       in case save e d hoot' of
                            Inl x \<Rightarrow> fail d x
                          | Inr d' \<Rightarrow> (d', (200, JsonMessage ''Comment deleted successfully''))))))"

subsection \<open>Identity of users, in the words of the specification\<close>

text \<open>
  The specification asks that the caller and an author be compared as identities, whatever
  the representation: both sides are brought to one canonical string form (the lower case
  hexadecimal digits) and the strings compared. This definition follows the
  specification; the handlers above use \<open>equals\<close> and \<open>strictNotEqual\<close>.
\<close>

fun canonicalId :: "jsid \<Rightarrow> string option" where
  "canonicalId Undefined = None"
| "canonicalId (Str s) = Some (toLowerCase s)"
| "canonicalId (Oid a) = Some (toHexString a)"

definition sameIdentity :: "jsid \<Rightarrow> objectid \<Rightarrow> bool" where
  "sameIdentity v a = (canonicalId v = Some (toHexString a))"

subsection \<open>A small store, for the concrete runs\<close>

definition U1 :: objectid where "U1 = ObjectId ''65f000000000000000000001''"
definition U2 :: objectid where "U2 = ObjectId ''65f000000000000000000002''"
definition H1 :: objectid where "H1 = ObjectId ''65f0000000000000000000a1''"
definition H2 :: objectid where "H2 = ObjectId ''65f0000000000000000000a2''"
definition K1 :: objectid where "K1 = ObjectId ''65f0000000000000000000c1''"
definition K2 :: objectid where "K2 = ObjectId ''65f0000000000000000000c2''"
definition K3 :: objectid where "K3 = ObjectId ''65f0000000000000000000c3''"
definition K4 :: objectid where "K4 = ObjectId ''65f0000000000000000000c4''"

definition alice :: user where
  "alice = \<lparr>u_id = Str ''65f000000000000000000001'', u_username = ''alice''\<rparr>"

definition bob :: user where
  "bob = \<lparr>u_id = Str ''65f000000000000000000002'', u_username = ''bob''\<rparr>"

text \<open>The same user as \<open>alice\<close>, with the id left on the request as a structured \<open>ObjectId\<close>.\<close>

definition alice_oid :: user where
  "alice_oid = \<lparr>u_id = Oid U1, u_username = ''alice''\<rparr>"

definition comment1 :: stored_comment where
  "comment1 = \<lparr>c_id = K1, c_text = ''first'', c_author = Some U1,
                c_createdAt = 110, c_updatedAt = 110\<rparr>"

definition comment2 :: stored_comment where
  "comment2 = \<lparr>c_id = K2, c_text = ''second'', c_author = Some U1,
                c_createdAt = 120, c_updatedAt = 120\<rparr>"

definition comment3 :: stored_comment where
  "comment3 = \<lparr>c_id = K3, c_text = ''third'', c_author = Some U2,
                c_createdAt = 130, c_updatedAt = 130\<rparr>"

definition hoot1 :: stored_hoot where
  "hoot1 = \<lparr>h_id = H1, h_title = ''Hi'', h_text = ''World'', h_category = ''News'',
             h_author = Some U1, h_comments = [comment1, comment2, comment3],
             h_createdAt = 100, h_updatedAt = 130\<rparr>"

definition hoot2 :: stored_hoot where
  "hoot2 = \<lparr>h_id = H2, h_title = ''Later'', h_text = ''Text'', h_category = ''Music'',
             h_author = Some U2, h_comments = [], h_createdAt = 200, h_updatedAt = 200\<rparr>"

definition db1 :: db where
  "db1 = \<lparr>hoots = [hoot1, hoot2],
          users = [\<lparr>u_id = Oid U1, u_username = ''alice''\<rparr>,
                   \<lparr>u_id = Oid U2, u_username = ''bob''\<rparr>]\<rparr>"

definition env1 :: env where
  "env1 = \<lparr>now = 300, newId = K4\<rparr>"

text \<open>
  Two more stores, each reached from \<open>db1\<close> by the handlers themselves. In \<open>db2\<close> the
  author of \<open>hoot1\<close> has emptied its title with \<open>PUT /:hootId\<close>, which does not
  validate. In \<open>db3\<close> the third comment of \<open>hoot1\<close> has been deleted and a comment posted
  whose body brings the \<open>_id\<close> of the second.
\<close>

definition hoot1_untitled :: stored_hoot where
  "hoot1_untitled = hoot1\<lparr>h_title := [], h_updatedAt := 300\<rparr>"

definition db2 :: db where
  "db2 = db1\<lparr>hoots := [hoot1_untitled, hoot2]\<rparr>"

definition comment2b :: stored_comment where
  "comment2b = \<lparr>c_id = K2, c_text = ''again'', c_author = Some U1,
                 c_createdAt = 300, c_updatedAt = 300\<rparr>"

definition hoot1_dup :: stored_hoot where
  "hoot1_dup = hoot1\<lparr>h_comments := [comment1, comment2, comment2b], h_updatedAt := 300\<rparr>"

definition db3 :: db where
  "db3 = db1\<lparr>hoots := [hoot1_dup, hoot2]\<rparr>"

subsection \<open>The frame of an operation on one post\<close>

text \<open>
  \<open>untouched hootId d d'\<close>: from \<open>d\<close> to \<open>d'\<close> the users and the number of posts are
  the same, and every post whose \<open>_id\<close> is not the one \<open>hootId\<close> denotes is the same
  document at the same place.
\<close>

definition untouched :: "string \<Rightarrow> db \<Rightarrow> db \<Rightarrow> bool" where
  "untouched hootId d d' =
     (users d' = users d \<and> length (hoots d') = length (hoots d)
      \<and> (\<forall>k < length (hoots d).
            castObjectId hootId \<noteq> Inr (h_id (hoots d ! k)) \<longrightarrow> hoots d' ! k = hoots d ! k))"

lemmas example_defs =
  U1_def U2_def H1_def H2_def K1_def K2_def K3_def K4_def alice_def bob_def alice_oid_def
  comment1_def comment2_def comment3_def hoot1_def hoot2_def db1_def env1_def
  hoot1_untitled_def db2_def comment2b_def hoot1_dup_def db3_def

lemmas cast_defs = castObjectId_def isHexDigit_def toLowerCase_def toLowerCaseChar_def

section \<open>Properties\<close>

subsection \<open>The concrete store\<close>

lemma findById_db1_H1: "findById db1 ''65f0000000000000000000a1'' = Inr (Some hoot1)"
  by (simp add: findById_def cast_defs example_defs)

lemma findById_db1_H2: "findById db1 ''65f0000000000000000000a2'' = Inr (Some hoot2)"
  by (simp add: findById_def cast_defs example_defs)

lemma findById_db2_H1: "findById db2 ''65f0000000000000000000a1'' = Inr (Some hoot1_untitled)"
  by (simp add: findById_def cast_defs example_defs)

lemma findById_db3_H1: "findById db3 ''65f0000000000000000000a1'' = Inr (Some hoot1_dup)"
  by (simp add: findById_def cast_defs example_defs)

lemma validHoot_hoot1: "validHoot hoot1"
  by (simp add: validHoot_def validComment_def categories_def example_defs)

text \<open>How the handlers themselves lead from \<open>db1\<close> to \<open>db2\<close> and to \<open>db3\<close>.\<close>

lemma db2_reached:
  "put_hoot env1 ''65f0000000000000000000a1'' alice
     \<lparr>b_title = Some [], b_text = None, b_category = None, b_author = Undefined\<rparr> db1
   = (db2, (200, JsonHoot ((hootJSON hoot1_untitled)\<lparr>h_author := AuthorUser alice\<rparr>)))"
  by (simp add: put_hoot_def findByIdAndUpdate_def applySet_def findById_def Let_def
      cast_defs example_defs)

lemma db3_reached:
  "fst (post_comment env1 ''65f0000000000000000000a1'' alice
          \<lparr>cb_id = Str ''65f0000000000000000000c2'', cb_text = Some ''again'',
           cb_author = Undefined\<rparr>
          (fst (delete_comment env1 ''65f0000000000000000000a1'' ''65f0000000000000000000c3''
                  bob db1)))
   = db3"
  by (simp add: post_comment_def delete_comment_def findById_def comments_id_def
      comments_remove_def save_def validHoot_def validComment_def categories_def Let_def
      cast_defs example_defs)

subsection \<open>Ownership of posts\<close>

text \<open>
  \<open>equals\<close>, the comparison of the two post handlers, is the identity of the
  specification: it accepts the caller's id as a string in either case and as an
  \<open>ObjectId\<close>.
\<close>

lemma equals_sameIdentity: "equals a v = sameIdentity v a"
  by (cases v) (auto simp: sameIdentity_def)

text \<open>
  C3. For an existing post that has an author and a caller who is not that author, both
  \<open>PUT /:hootId\<close> and \<open>DELETE /:hootId\<close> answer 403 with the fixed text, and the
  store they return is the store they were given: the check returns before
  \<open>findByIdAndUpdate\<close> or \<open>findByIdAndDelete\<close> is reached.
\<close>

theorem put_delete_hoot_forbidden:
  assumes "findById d hootId = Inr (Some hoot)"
    and "h_author hoot = Some a"
    and "\<not> sameIdentity (u_id u) a"
  shows "put_hoot e hootId u b d = (d, (403, SendText ''You're not allowed to do that!''))
       \<and> delete_hoot hootId u d = (d, (403, SendText ''You're not allowed to do that!''))"
  using assms by (simp add: put_hoot_def delete_hoot_def equals_sameIdentity)

theorem put_delete_hoot_forbidden_witness:
  "findById db1 ''65f0000000000000000000a1'' = Inr (Some hoot1)
   \<and> h_author hoot1 = Some U1
   \<and> \<not> sameIdentity (u_id bob) U1
   \<and> put_hoot env1 ''65f0000000000000000000a1'' bob
        \<lparr>b_title = Some ''Mine'', b_text = None, b_category = None, b_author = Undefined\<rparr> db1
      = (db1, (403, SendText ''You're not allowed to do that!''))
   \<and> delete_hoot ''65f0000000000000000000a1'' bob db1
      = (db1, (403, SendText ''You're not allowed to do that!''))"
proof -
  have 1: "findById db1 ''65f0000000000000000000a1'' = Inr (Some hoot1)"
    by (rule findById_db1_H1)
  have 2: "h_author hoot1 = Some U1"
    by (simp add: hoot1_def)
  have 3: "\<not> sameIdentity (u_id bob) U1"
    by (simp add: sameIdentity_def bob_def U1_def cast_defs)
  from put_delete_hoot_forbidden [OF 1 2 3] 1 2 3 show ?thesis
    by simp
qed

subsection \<open>Validation at creation\<close>

text \<open>
  C6. A create request whose category is absent or not one of the six values, or whose
  title or text is absent or empty, is answered with the \<open>ValidationError\<close> of
  \<open>Hoot.create\<close> (under status 500, the only status of the \<open>catch\<close>), and the store is
  returned as it was: no post is stored.
\<close>

theorem post_hoots_rejects_invalid:
  assumes "b_category b \<notin> Some ` set categories
           \<or> b_title b \<in> {None, Some []} \<or> b_text b \<in> {None, Some []}"
  shows "post_hoots e u b d = (d, (500, JsonErr ValidationError))"
  using assms
  by (auto simp: post_hoots_def create_def fail_def split: option.splits sum.splits)

theorem post_hoots_rejects_invalid_witness:
  "post_hoots env1 alice
     \<lparr>b_title = Some ''Hi'', b_text = Some ''World'', b_category = Some ''Politics'',
      b_author = Undefined\<rparr> db1
   = (db1, (500, JsonErr ValidationError))"
  using post_hoots_rejects_invalid [of
      "\<lparr>b_title = Some ''Hi'', b_text = Some ''World'', b_category = Some ''Politics'',
        b_author = Undefined\<rparr>" env1 alice db1]
  by (simp add: categories_def)

subsection \<open>Reading a post that is not there\<close>

text \<open>
  C4, as claimed, asks for a \<open>NotFound\<close> failure. The handler has none: \<open>findById\<close>
  gives \<open>null\<close> for an id without a document, and the handler sends that \<open>null\<close>
  with status 200. Here the store \<open>db1\<close> has no post with the id asked for.
\<close>

theorem get_hoot_absent_counterexample:
  "findById db1 ''65f0000000000000000000a5'' = Inr None
   \<and> get_hoot ''65f0000000000000000000a5'' alice db1 = (db1, (200, JsonNull))"
  by (simp add: get_hoot_def findById_def cast_defs example_defs)

text \<open>
  C4, amended. For every id at which no post exists, \<open>GET /:hootId\<close> leaves the store
  as it is and answers 200 with \<open>null\<close> when the id is well formed, and 500 with the
  \<open>CastError\<close> of the lookup when it is not.
\<close>

theorem get_hoot_absent:
  assumes "\<forall>i. castObjectId hootId = Inr i \<longrightarrow> i \<notin> h_id ` set (hoots d)"
  shows "get_hoot hootId u d =
           (d, (case castObjectId hootId of
                  Inl x \<Rightarrow> (500, JsonErr CastError)
                | Inr i \<Rightarrow> (200, JsonNull)))"
proof (cases "castObjectId hootId")
  case (Inl x)
  then have "x = CastError"
    by (simp add: castObjectId_def split: if_splits)
  with Inl show ?thesis
    by (simp add: get_hoot_def findById_def fail_def)
next
  case (Inr i)
  with assms have "i \<notin> h_id ` set (hoots d)"
    by simp
  then have "find (\<lambda>h. h_id h = i) (hoots d) = None"
    by (auto simp: find_None_iff)
  with Inr show ?thesis
    by (simp add: get_hoot_def findById_def)
qed

theorem get_hoot_absent_witness:
  "get_hoot ''65f0000000000000000000a5'' alice db1 = (db1, (200, JsonNull))
   \<and> get_hoot ''no-such-id'' alice db1 = (db1, (500, JsonErr CastError))"
  using get_hoot_absent [of "''65f0000000000000000000a5''" db1 alice]
        get_hoot_absent [of "''no-such-id''" db1 alice]
  by (simp add: cast_defs example_defs)

subsection \<open>The store after \<open>save\<close>\<close>

lemma find_updateOne:
  assumes "find (\<lambda>h. h_id h = i) hs = Some h" and "h_id h' = i"
  shows "find (\<lambda>h. h_id h = i) (updateOne i h' hs) = Some h'"
  using assms by (induction hs) (auto split: if_splits)

lemma find_h_id: "find (\<lambda>h. h_id h = i) hs = Some h \<Longrightarrow> h_id h = i"
  by (induction hs) (auto split: if_splits)

lemma findById_save:
  assumes "findById d hootId = Inr (Some hoot)" and "h_id hoot' = h_id hoot"
    and "save e d hoot' = Inr d'"
  shows "findById d' hootId = Inr (Some (hoot'\<lparr>h_updatedAt := now e\<rparr>))"
proof -
  from assms(1) obtain i where i: "castObjectId hootId = Inr i"
    and f: "find (\<lambda>h. h_id h = i) (hoots d) = Some hoot"
    by (auto simp: findById_def split: sum.splits)
  from f have "h_id hoot = i"
    by (rule find_h_id)
  with assms(2) f have "find (\<lambda>h. h_id h = i)
        (updateOne (h_id hoot') (hoot'\<lparr>h_updatedAt := now e\<rparr>) (hoots d))
      = Some (hoot'\<lparr>h_updatedAt := now e\<rparr>)"
    by (simp add: find_updateOne)
  moreover from assms(3)
  have "d' = d\<lparr>hoots := updateOne (h_id hoot') (hoot'\<lparr>h_updatedAt := now e\<rparr>) (hoots d)\<rparr>"
    by (simp add: save_def split: if_splits)
  ultimately show ?thesis
    using i by (simp add: findById_def)
qed

lemma save_valid:
  "validHoot h \<Longrightarrow> \<exists>d'. save e d h = Inr d'"
  by (simp add: save_def)

lemma validHoot_comments_remove:
  "validHoot hoot \<Longrightarrow> validHoot (hoot\<lparr>h_comments := comments_remove (h_comments hoot) commentId\<rparr>)"
  by (auto simp: validHoot_def comments_remove_def list_all_iff split: sum.splits)

subsection \<open>Deleting a comment\<close>

lemma comments_id_None:
  assumes "\<forall>c\<in>set cs. castObjectId commentId \<noteq> Inr (c_id c)"
  shows "comments_id cs commentId = None"
  using assms by (auto simp: comments_id_def find_None_iff split: sum.splits)

text \<open>
  C5, as claimed, says the handler does not throw for an absent comment id. It does:
  \<open>comments.id\<close> gives \<open>null\<close>, reading \<open>author\<close> of it throws a \<open>TypeError\<close>, and
  the \<open>catch\<close> answers 500. Here the post \<open>hoot2\<close> has no comments.
\<close>

theorem delete_comment_absent_counterexample:
  "findById db1 ''65f0000000000000000000a2'' = Inr (Some hoot2)
   \<and> h_comments hoot2 = []
   \<and> delete_comment env1 ''65f0000000000000000000a2'' ''65f0000000000000000000c1'' bob db1
       = (db1, (500, JsonErr TypeError))"
  by (simp add: findById_db1_H2 delete_comment_def comments_id_def fail_def cast_defs hoot2_def)

text \<open>
  C5, amended. For every existing post and every comment id absent from its comment list
  (ill formed, or matching no comment), \<open>DELETE /:hootId/comments/:commentId\<close> leaves
  the comment list, and the whole store, as it is; the \<open>TypeError\<close> of the failed
  lookup is caught and answered with status 500.
\<close>

theorem delete_comment_absent:
  assumes "findById d hootId = Inr (Some hoot)"
    and "\<forall>c\<in>set (h_comments hoot). castObjectId commentId \<noteq> Inr (c_id c)"
  shows "delete_comment e hootId commentId u d = (d, (500, JsonErr TypeError))"
  using assms(1) comments_id_None [OF assms(2)]
  by (simp add: delete_comment_def fail_def)

theorem delete_comment_absent_witness:
  "findById db1 ''65f0000000000000000000a1'' = Inr (Some hoot1)
   \<and> delete_comment env1 ''65f0000000000000000000a1'' ''65f0000000000000000000c4'' alice db1
       = (db1, (500, JsonErr TypeError))"
proof -
  have 2: "\<forall>c\<in>set (h_comments hoot1). castObjectId ''65f0000000000000000000c4'' \<noteq> Inr (c_id c)"
    by (simp add: cast_defs example_defs)
  from delete_comment_absent [OF findById_db1_H1 2] findById_db1_H1 show ?thesis
    by simp
qed

text \<open>
  A delete that passes the authorization check on a post that passes validation: the
  comments left are those whose \<open>_id\<close> is not the one asked for, and the answer is 200.
\<close>

lemma delete_comment_run:
  assumes "findById d hootId = Inr (Some hoot)"
    and "validHoot hoot"
    and "comments_id (h_comments hoot) commentId = Some c"
    and "c_author c = Some a"
    and "u_id u = Str (toHexString a)"
  shows "\<exists>d'. save e d (hoot\<lparr>h_comments := comments_remove (h_comments hoot) commentId\<rparr>) = Inr d'
            \<and> delete_comment e hootId commentId u d
                = (d', (200, JsonMessage ''Comment deleted successfully''))"
proof -
  from assms(2) have "validHoot (hoot\<lparr>h_comments := comments_remove (h_comments hoot) commentId\<rparr>)"
    by (rule validHoot_comments_remove)
  then obtain d' where
    "save e d (hoot\<lparr>h_comments := comments_remove (h_comments hoot) commentId\<rparr>) = Inr d'"
    using save_valid by blast
  with assms(1,3,4,5) show ?thesis
    by (simp add: delete_comment_def)
qed

text \<open>
  With pairwise different ids in the list, the lookup finds the comment asked for and the
  removal takes out that one element and keeps the others in their order.
\<close>

lemma comments_id_distinct:
  assumes "distinct (map c_id (xs @ c # ys))" and "castObjectId commentId = Inr (c_id c)"
  shows "comments_id (xs @ c # ys) commentId = Some c"
  using assms by (induction xs) (auto simp: comments_id_def)

lemma comments_remove_distinct:
  assumes "distinct (map c_id (xs @ c # ys))" and "castObjectId commentId = Inr (c_id c)"
  shows "comments_remove (xs @ c # ys) commentId = xs @ ys"
proof -
  from assms(1) have "\<forall>x\<in>set xs. c_id x \<noteq> c_id c" and "\<forall>y\<in>set ys. c_id y \<noteq> c_id c"
    by (auto simp: image_iff)
  then have "filter (\<lambda>x. c_id x \<noteq> c_id c) xs = xs" and "filter (\<lambda>y. c_id y \<noteq> c_id c) ys = ys"
    by (simp_all add: filter_id_conv)
  with assms(2) show ?thesis
    by (simp add: comments_remove_def)
qed

lemma delete_comment_one_run:
  assumes "findById d hootId = Inr (Some hoot)"
    and "validHoot hoot"
    and "h_comments hoot = xs @ c # ys"
    and "distinct (map c_id (xs @ c # ys))"
    and "castObjectId commentId = Inr (c_id c)"
    and "c_author c = Some a"
    and "u_id u = Str (toHexString a)"
  shows "snd (delete_comment e hootId commentId u d)
           = (200, JsonMessage ''Comment deleted successfully'')
       \<and> findById (fst (delete_comment e hootId commentId u d)) hootId
           = Inr (Some (hoot\<lparr>h_comments := xs @ ys, h_updatedAt := now e\<rparr>))"
proof -
  have found: "comments_id (h_comments hoot) commentId = Some c"
    using assms(3) comments_id_distinct [OF assms(4,5)] by simp
  have removed: "comments_remove (h_comments hoot) commentId = xs @ ys"
    using assms(3) comments_remove_distinct [OF assms(4,5)] by simp
  from delete_comment_run [OF assms(1,2) found assms(6,7), of e] removed
  obtain d' where s: "save e d (hoot\<lparr>h_comments := xs @ ys\<rparr>) = Inr d'"
    and run: "delete_comment e hootId commentId u d
                = (d', (200, JsonMessage ''Comment deleted successfully''))"
    by auto
  have "findById d' hootId = Inr (Some (hoot\<lparr>h_comments := xs @ ys, h_updatedAt := now e\<rparr>))"
    using findById_save [OF assms(1) _ s] by simp
  with run show ?thesis
    by simp
qed

text \<open>
  C7, as claimed, holds neither for every post nor for every comment list. In \<open>db2\<close> the
  post has the comments \<open>[comment1, comment2, comment3]\<close> and an empty title: the delete
  of \<open>comment2\<close> by its author fails the validation of \<open>save\<close>, answers 500 and removes
  nothing. In \<open>db3\<close> the post has the comments \<open>[comment1, comment2, comment2b]\<close>, the
  last two with one \<open>_id\<close>: the delete of \<open>comment2\<close> by its author removes both and
  leaves \<open>[comment1]\<close>.
\<close>

theorem delete_comment_middle_counterexample:
  "findById db2 ''65f0000000000000000000a1'' = Inr (Some hoot1_untitled)
   \<and> h_comments hoot1_untitled = [comment1, comment2, comment3]
   \<and> c_author comment2 = Some U1
   \<and> u_id alice = Str (toHexString U1)
   \<and> delete_comment env1 ''65f0000000000000000000a1'' ''65f0000000000000000000c2'' alice db2
       = (db2, (500, JsonErr ValidationError))
   \<and> findById db3 ''65f0000000000000000000a1'' = Inr (Some hoot1_dup)
   \<and> h_comments hoot1_dup = [comment1, comment2, comment2b]
   \<and> snd (delete_comment env1 ''65f0000000000000000000a1'' ''65f0000000000000000000c2'' alice db3)
       = (200, JsonMessage ''Comment deleted successfully'')
   \<and> findById (fst (delete_comment env1 ''65f0000000000000000000a1''
                        ''65f0000000000000000000c2'' alice db3)) ''65f0000000000000000000a1''
       = Inr (Some (hoot1_dup\<lparr>h_comments := [comment1]\<rparr>))"
proof -
  have a: "delete_comment env1 ''65f0000000000000000000a1'' ''65f0000000000000000000c2'' alice db2
       = (db2, (500, JsonErr ValidationError))"
    by (simp add: delete_comment_def findById_db2_H1 comments_id_def comments_remove_def
        save_def validHoot_def fail_def cast_defs hoot1_untitled_def hoot1_def comment1_def
        comment2_def comment3_def K1_def K2_def K3_def U1_def alice_def)
  have b: "delete_comment env1 ''65f0000000000000000000a1'' ''65f0000000000000000000c2'' alice db3
       = (db3\<lparr>hoots := [hoot1_dup\<lparr>h_comments := [comment1]\<rparr>, hoot2]\<rparr>,
          (200, JsonMessage ''Comment deleted successfully''))"
    by (simp add: delete_comment_def findById_def comments_id_def comments_remove_def
        save_def validHoot_def validComment_def categories_def cast_defs example_defs)
  have c: "findById (db3\<lparr>hoots := [hoot1_dup\<lparr>h_comments := [comment1]\<rparr>, hoot2]\<rparr>)
             ''65f0000000000000000000a1'' = Inr (Some (hoot1_dup\<lparr>h_comments := [comment1]\<rparr>))"
    by (simp add: findById_def cast_defs example_defs)
  show ?thesis
    using a b c findById_db2_H1 findById_db3_H1
    by (simp add: hoot1_untitled_def hoot1_dup_def hoot1_def comment2_def alice_def U1_def)
qed

text \<open>
  C7, amended. For a post that passes the validators of its schema and whose comments have
  pairwise different ids, a delete of one of them by its author (the caller's id is the
  string form of the comment's author) answers 200, and the post stored afterwards has
  the comments before it followed by the comments after it: exactly that one element is
  gone and the others keep their order. With the comments \<open>[c1, c2, c3]\<close> and the delete
  of \<open>c2\<close> this leaves \<open>[c1, c3]\<close>.
\<close>

theorem delete_comment_removes_exactly_one:
  assumes "findById d hootId = Inr (Some hoot)"
    and "validHoot hoot"
    and "h_comments hoot = xs @ c # ys"
    and "distinct (map c_id (xs @ c # ys))"
    and "castObjectId commentId = Inr (c_id c)"
    and "c_author c = Some a"
    and "u_id u = Str (toHexString a)"
  shows "snd (delete_comment e hootId commentId u d)
           = (200, JsonMessage ''Comment deleted successfully'')
       \<and> findById (fst (delete_comment e hootId commentId u d)) hootId
           = Inr (Some (hoot\<lparr>h_comments := xs @ ys, h_updatedAt := now e\<rparr>))"
  using assms by (rule delete_comment_one_run)

theorem delete_comment_removes_exactly_one_witness:
  "snd (delete_comment env1 ''65f0000000000000000000a1'' ''65f0000000000000000000c2'' alice db1)
     = (200, JsonMessage ''Comment deleted successfully'')
   \<and> findById (fst (delete_comment env1 ''65f0000000000000000000a1''
                      ''65f0000000000000000000c2'' alice db1)) ''65f0000000000000000000a1''
     = Inr (Some (hoot1\<lparr>h_comments := [comment1, comment3], h_updatedAt := 300\<rparr>))"
proof -
  have 3: "h_comments hoot1 = [comment1] @ comment2 # [comment3]"
    by (simp add: hoot1_def)
  have 4: "distinct (map c_id ([comment1] @ comment2 # [comment3]))"
    by (simp add: example_defs)
  have 5: "castObjectId ''65f0000000000000000000c2'' = Inr (c_id comment2)"
    by (simp add: cast_defs example_defs)
  have 6: "c_author comment2 = Some U1"
    by (simp add: comment2_def)
  have 7: "u_id alice = Str (toHexString U1)"
    by (simp add: alice_def U1_def)
  from delete_comment_removes_exactly_one [OF findById_db1_H1 validHoot_hoot1 3 4 5 6 7, of env1]
  show ?thesis
    by (simp add: env1_def)
qed

text \<open>The instance of three comments, as the claim words it.\<close>

lemma delete_comment_middle:
  assumes "findById d hootId = Inr (Some hoot)"
    and "validHoot hoot"
    and "h_comments hoot = [c1, c2, c3]"
    and "distinct [c_id c1, c_id c2, c_id c3]"
    and "castObjectId commentId = Inr (c_id c2)"
    and "c_author c2 = Some a"
    and "u_id u = Str (toHexString a)"
  shows "snd (delete_comment e hootId commentId u d)
           = (200, JsonMessage ''Comment deleted successfully'')
       \<and> findById (fst (delete_comment e hootId commentId u d)) hootId
           = Inr (Some (hoot\<lparr>h_comments := [c1, c3], h_updatedAt := now e\<rparr>))"
  using delete_comment_one_run [of d hootId hoot "[c1]" c2 "[c3]" commentId a u e] assms
  by simp

subsection \<open>Listing posts\<close>





subsection \<open>Adding a comment\<close>

text \<open>
  C9. For an existing post, whenever \<open>POST /:hootId/comments\<close> does not answer 500 it
  answers 201 with the new comment, whose \<open>author\<close> is \<open>req.user\<close>; the store it returns
  is the one \<open>save\<close> wrote, and the post stored afterwards has its former comments
  followed by that comment, which carries the text of the request and the caller's id as
  author.
\<close>

theorem post_comment_appends:
  assumes "findById d hootId = Inr (Some hoot)"
    and "fst (snd (post_comment e hootId u b d)) \<noteq> 500"
  shows "\<exists>c. save e d (hoot\<lparr>h_comments := h_comments hoot @ [c]\<rparr>)
               = Inr (fst (post_comment e hootId u b d))
            \<and> snd (post_comment e hootId u b d)
               = (201, JsonComment ((commentJSON c)\<lparr>c_author := AuthorUser u\<rparr>))
            \<and> findById (fst (post_comment e hootId u b d)) hootId
               = Inr (Some (hoot\<lparr>h_comments := h_comments hoot @ [c], h_updatedAt := now e\<rparr>))
            \<and> cb_text b = Some (c_text c) \<and> castAuthor (u_id u) = Inr (c_author c)"
proof -
  obtain s where s: "cb_text b = Some s"
    using assms by (cases "cb_text b") (auto simp: post_comment_def fail_def)
  obtain a where a: "castAuthor (u_id u) = Inr a"
    using assms s by (cases "castAuthor (u_id u)") (auto simp: post_comment_def fail_def)
  obtain i where i: "castAuthor (cb_id b) = Inr i"
    using assms s a by (cases "castAuthor (cb_id b)") (auto simp: post_comment_def fail_def)
  let ?c = "\<lparr>c_id = (case i of None \<Rightarrow> newId e | Some j \<Rightarrow> j), c_text = s, c_author = a,
             c_createdAt = now e, c_updatedAt = now e\<rparr>"
  let ?hoot' = "hoot\<lparr>h_comments := h_comments hoot @ [?c]\<rparr>"
  obtain d' where d': "save e d ?hoot' = Inr d'"
    using assms s a i
    by (cases "save e d ?hoot'") (auto simp: post_comment_def fail_def Let_def)
  have run: "post_comment e hootId u b d
      = (d', (201, JsonComment ((commentJSON ?c)\<lparr>c_author := AuthorUser u\<rparr>)))"
    using assms(1) s a i d' by (simp add: post_comment_def Let_def)
  have "findById d' hootId = Inr (Some (?hoot'\<lparr>h_updatedAt := now e\<rparr>))"
    by (rule findById_save [OF assms(1) _ d']) simp
  with run d' s a show ?thesis
    by (intro exI [of _ ?c]) simp
qed

theorem post_comment_appends_witness:
  "findById db1 ''65f0000000000000000000a1'' = Inr (Some hoot1)
   \<and> fst (snd (post_comment env1 ''65f0000000000000000000a1'' alice
                   \<lparr>cb_id = Undefined, cb_text = Some ''nice post'', cb_author = Undefined\<rparr>
                   db1)) \<noteq> 500
   \<and> (\<exists>c. save env1 db1 (hoot1\<lparr>h_comments := h_comments hoot1 @ [c]\<rparr>)
               = Inr (fst (post_comment env1 ''65f0000000000000000000a1'' alice
                   \<lparr>cb_id = Undefined, cb_text = Some ''nice post'', cb_author = Undefined\<rparr>
                   db1))
            \<and> snd (post_comment env1 ''65f0000000000000000000a1'' alice
                   \<lparr>cb_id = Undefined, cb_text = Some ''nice post'', cb_author = Undefined\<rparr>
                   db1)
               = (201, JsonComment ((commentJSON c)\<lparr>c_author := AuthorUser alice\<rparr>))
            \<and> findById (fst (post_comment env1 ''65f0000000000000000000a1'' alice
                   \<lparr>cb_id = Undefined, cb_text = Some ''nice post'', cb_author = Undefined\<rparr>
                   db1))
                  ''65f0000000000000000000a1''
               = Inr (Some (hoot1\<lparr>h_comments := h_comments hoot1 @ [c], h_updatedAt := now env1\<rparr>))
            \<and> Some ''nice post'' = Some (c_text c) \<and> castAuthor (u_id alice) = Inr (c_author c))"
proof -
  have 2: "fst (snd (post_comment env1 ''65f0000000000000000000a1'' alice
                   \<lparr>cb_id = Undefined, cb_text = Some ''nice post'', cb_author = Undefined\<rparr>
                   db1)) \<noteq> 500"
    by (simp add: post_comment_def findById_db1_H1 save_def validHoot_def validComment_def
        categories_def Let_def alice_def cast_defs hoot1_def comment1_def comment2_def
        comment3_def)
  from post_comment_appends [OF findById_db1_H1 2] findById_db1_H1 2 show ?thesis
    by simp
qed

subsection \<open>Comment operations touch one post\<close>

lemma updateOne_length: "length (updateOne i h' hs) = length hs"
  by (induction hs) auto

lemma updateOne_nth_other:
  "k < length hs \<Longrightarrow> h_id (hs ! k) \<noteq> i \<Longrightarrow> updateOne i h' hs ! k = hs ! k"
proof (induction hs arbitrary: k)
  case Nil
  then show ?case by simp
next
  case (Cons h hs)
  then show ?case
    by (cases k) auto
qed

lemma untouched_refl: "untouched hootId d d"
  by (simp add: untouched_def)

lemma untouched_save:
  assumes "findById d hootId = Inr (Some hoot)" and "h_id hoot' = h_id hoot"
  shows "untouched hootId d (fst (case save e d hoot' of Inl x \<Rightarrow> fail d x | Inr d' \<Rightarrow> (d', r)))"
proof (cases "validHoot hoot'")
  case False
  then show ?thesis
    by (simp add: save_def fail_def untouched_refl)
next
  case True
  from assms(1) obtain i where i: "castObjectId hootId = Inr i"
    and f: "find (\<lambda>h. h_id h = i) (hoots d) = Some hoot"
    by (auto simp: findById_def split: sum.splits)
  from f have "h_id hoot = i"
    by (rule find_h_id)
  with assms(2) i True show ?thesis
    by (auto simp: untouched_def save_def updateOne_length updateOne_nth_other)
qed

lemma post_comment_untouched: "untouched hootId d (fst (post_comment e hootId u b d))"
proof (cases "findById d hootId")
  case (Inl x)
  then show ?thesis
    by (simp add: post_comment_def fail_def untouched_refl)
next
  case (Inr r)
  show ?thesis
  proof (cases r)
    case None
    with Inr show ?thesis
      by (simp add: post_comment_def fail_def untouched_refl)
  next
    case (Some hoot)
    with Inr have f: "findById d hootId = Inr (Some hoot)"
      by simp
    then show ?thesis
      by (auto simp: post_comment_def untouched_refl Let_def untouched_save [OF f]
          simp: fail_def [of d ValidationError] split: option.splits sum.splits)
  qed
qed

lemma put_comment_untouched: "untouched hootId d (fst (put_comment e hootId commentId u b d))"
proof (cases "findById d hootId")
  case (Inl x)
  then show ?thesis
    by (simp add: put_comment_def fail_def untouched_refl)
next
  case (Inr r)
  show ?thesis
  proof (cases r)
    case None
    with Inr show ?thesis
      by (simp add: put_comment_def fail_def untouched_refl)
  next
    case (Some hoot)
    with Inr have f: "findById d hootId = Inr (Some hoot)"
      by simp
    then show ?thesis
      by (auto simp: put_comment_def untouched_refl Let_def untouched_save [OF f]
          simp: fail_def [of d ValidationError] fail_def [of d TypeError]
          split: option.splits sum.splits)
  qed
qed

lemma delete_comment_untouched: "untouched hootId d (fst (delete_comment e hootId commentId u d))"
proof (cases "findById d hootId")
  case (Inl x)
  then show ?thesis
    by (simp add: delete_comment_def fail_def untouched_refl)
next
  case (Inr r)
  show ?thesis
  proof (cases r)
    case None
    with Inr show ?thesis
      by (simp add: delete_comment_def fail_def untouched_refl)
  next
    case (Some hoot)
    with Inr have f: "findById d hootId = Inr (Some hoot)"
      by simp
    then show ?thesis
      by (auto simp: delete_comment_def untouched_refl Let_def untouched_save [OF f]
          simp: fail_def [of d ValidationError] fail_def [of d TypeError]
          split: option.splits sum.splits)
  qed
qed

text \<open>
  C10. Each of the three comment handlers leaves every post other than the one named by
  \<open>hootId\<close> as it was, at its place in the collection, and neither adds nor removes a
  post nor changes the users.
\<close>

theorem comment_ops_frame:
  assumes "k < length (hoots d)"
    and "castObjectId hootId \<noteq> Inr (h_id (hoots d ! k))"
  shows "hoots (fst (post_comment e hootId u b d)) ! k = hoots d ! k
       \<and> hoots (fst (put_comment e hootId commentId u b d)) ! k = hoots d ! k
       \<and> hoots (fst (delete_comment e hootId commentId u d)) ! k = hoots d ! k
       \<and> length (hoots (fst (post_comment e hootId u b d))) = length (hoots d)
       \<and> length (hoots (fst (put_comment e hootId commentId u b d))) = length (hoots d)
       \<and> length (hoots (fst (delete_comment e hootId commentId u d))) = length (hoots d)
       \<and> users (fst (post_comment e hootId u b d)) = users d
       \<and> users (fst (put_comment e hootId commentId u b d)) = users d
       \<and> users (fst (delete_comment e hootId commentId u d)) = users d"
  using assms post_comment_untouched [of hootId d e u b]
    put_comment_untouched [of hootId d e commentId u b]
    delete_comment_untouched [of hootId d e commentId u]
  by (simp add: untouched_def)

theorem comment_ops_frame_witness:
  "(1::nat) < length (hoots db1)
   \<and> castObjectId ''65f0000000000000000000a1'' \<noteq> Inr (h_id (hoots db1 ! 1))
   \<and> hoots (fst (post_comment env1 ''65f0000000000000000000a1'' alice
                    \<lparr>cb_id = Undefined, cb_text = Some ''edited'', cb_author = Undefined\<rparr> db1)) ! 1 = hoots db1 ! 1
   \<and> hoots (fst (put_comment env1 ''65f0000000000000000000a1'' ''65f0000000000000000000c1'' alice
                    \<lparr>cb_id = Undefined, cb_text = Some ''edited'', cb_author = Undefined\<rparr> db1)) ! 1 = hoots db1 ! 1
   \<and> hoots (fst (delete_comment env1 ''65f0000000000000000000a1'' ''65f0000000000000000000c1''
                    alice db1)) ! 1 = hoots db1 ! 1"
proof -
  have 1: "(1::nat) < length (hoots db1)"
    by (simp add: db1_def)
  have 2: "castObjectId ''65f0000000000000000000a1'' \<noteq> Inr (h_id (hoots db1 ! 1))"
    by (simp add: cast_defs example_defs)
  from comment_ops_frame [OF 1 2, of env1 alice
      "\<lparr>cb_id = Undefined, cb_text = Some ''edited'', cb_author = Undefined\<rparr>" "''65f0000000000000000000c1''"] 1 2
  show ?thesis
    by simp
qed

subsection \<open>Ownership of comments\<close>

text \<open>
  The comparison of the two comment handlers, \<open>comment.author.toString() !== req.user._id\<close>,
  agrees with the identity of the specification when the caller's id is a string of lower
  case digits.
\<close>

lemma strictNotEqual_canonical_string:
  "toLowerCase s = s \<Longrightarrow> strictNotEqual (toHexString a) (Str s) = (\<not> sameIdentity (Str s) a)"
  by (auto simp: sameIdentity_def)

text \<open>
  C1 at a caller whose id is left on the request as an \<open>ObjectId\<close>. The caller
  \<open>alice_oid\<close> is the author \<open>U1\<close> of \<open>comment1\<close> in \<open>hoot1\<close>; the handlers convert only
  the comment's side to a string, the strict inequality of a string and an object holds,
  and both answer 403 to the author, leaving the store as it was.
\<close>

theorem comment_author_structured_id_forbidden:
  "comments_id (h_comments hoot1) ''65f0000000000000000000c1'' = Some comment1
   \<and> c_author comment1 = Some U1
   \<and> sameIdentity (u_id alice_oid) U1
   \<and> put_comment env1 ''65f0000000000000000000a1'' ''65f0000000000000000000c1'' alice_oid
        \<lparr>cb_id = Undefined, cb_text = Some ''edited'', cb_author = Undefined\<rparr> db1
       = (db1, (403, JsonMessage ''You are not authorized to edit this comment''))
   \<and> delete_comment env1 ''65f0000000000000000000a1'' ''65f0000000000000000000c1'' alice_oid db1
       = (db1, (403, JsonMessage ''You are not authorized to delete this comment''))"
  by (simp add: put_comment_def delete_comment_def findById_db1_H1 comments_id_def
      sameIdentity_def cast_defs hoot1_def comment1_def K1_def U1_def alice_oid_def)

subsection \<open>The author of a post\<close>

text \<open>At creation the author is the caller's id, whatever the body holds under \<open>author\<close>.\<close>

lemma post_hoots_ignores_body_author:
  "post_hoots e u (b\<lparr>b_author := x\<rparr>) d = post_hoots e u b d"
  by (simp add: post_hoots_def)

text \<open>
  C2 at an update whose body has an \<open>author\<close> key. \<open>alice\<close> is the author \<open>U1\<close> of
  \<open>hoot1\<close>; her \<open>PUT /:hootId\<close> with the body \<open>{author: U2}\<close> passes the ownership
  check, the whole body goes to \<open>findByIdAndUpdate\<close>, and the post stored afterwards has
  the author \<open>U2\<close>.
\<close>

theorem put_hoot_overwrites_author:
  "h_author hoot1 = Some U1
   \<and> findById (fst (put_hoot env1 ''65f0000000000000000000a1'' alice
                      \<lparr>b_title = None, b_text = None, b_category = None,
                       b_author = Str ''65f000000000000000000002''\<rparr> db1))
        ''65f0000000000000000000a1''
       = Inr (Some (hoot1\<lparr>h_author := Some U2, h_updatedAt := 300\<rparr>))"
  by (simp add: put_hoot_def findByIdAndUpdate_def applySet_def findById_def Let_def
      cast_defs example_defs)

end
